theory Spec2Isabelle
  imports Main
begin

section \<open>Values of the upload module\<close>

text \<open>
  The module \<^verbatim>\<open>src/index.js\<close> exports one handler, \<^verbatim>\<open>upload\<close>, built from
  \<^verbatim>\<open>parseMultipartFormData\<close>, \<^verbatim>\<open>uploadFileIntoS3\<close> and \<^verbatim>\<open>getFileExtension\<close>.
  Errors are values. \<open>Error msg\<close> is \<^verbatim>\<open>new Error(msg)\<close> as the module itself
  constructs it, \<open>ReferenceError\<close> is what the runtime throws when an identifier is
  bound in no enclosing scope, \<open>DecoderError\<close> and \<open>S3Error\<close> stand for the error
  objects handed over by the multipart decoder and by the storage client; their
  payload is opaque to the module.
\<close>

datatype error =
    Error string
  | ReferenceError string
  | DecoderError string
  | S3Error string

text \<open>
  A file as the decoder delivers it: \<^verbatim>\<open>file["headers"]\<close> is \<open>None\<close> when the
  property is \<^verbatim>\<open>null\<close> or \<^verbatim>\<open>undefined\<close> (the source tests \<^verbatim>\<open>headers == null\<close>,
  which holds for both), otherwise the mapping of header names to header values.
  A header value the mapping does not hold reads as \<^verbatim>\<open>undefined\<close>, here \<open>None\<close>.
\<close>

record file_record =
  headers :: "(string \<rightharpoonup> string) option"
  content :: string

text \<open>The two messages of \<^verbatim>\<open>getFileExtension\<close>, with their double quotes.\<close>

definition MissingHeadersError :: error where
  \<open>MissingHeadersError = Error ''Missing "headers" from request''\<close>

text \<open>
  Interpolation of \<^verbatim>\<open>${contentType}\<close>: a string is inserted as it is, \<^verbatim>\<open>undefined\<close>
  is inserted as the nine characters \<^verbatim>\<open>undefined\<close>.
\<close>

definition interpolate :: "string option \<Rightarrow> string" where
  "interpolate v = (case v of None \<Rightarrow> ''undefined'' | Some s \<Rightarrow> s)"

definition UnsupportedContentTypeError :: "string option \<Rightarrow> error" where
  \<open>UnsupportedContentTypeError contentType =
     Error (''Unsupported content type "'' @ interpolate contentType @ ''".'')\<close>

section \<open>getFileExtension\<close>

text \<open>
  The chain of comparisons of the source, in its order. \<^verbatim>\<open>contentType == "image/jpeg"\<close>
  on a string compares the characters; \<^verbatim>\<open>undefined\<close> equals no string.
\<close>

definition getFileExtension :: "file_record \<Rightarrow> error + string" where
  "getFileExtension f =
     (case headers f of
        None \<Rightarrow> Inl MissingHeadersError
      | Some hs \<Rightarrow>
          (let contentType = hs ''content-type'' in
           if contentType = Some ''image/jpeg'' then Inr ''jpg''
           else if contentType = Some ''image/png'' then Inr ''png''
           else if contentType = Some ''text/html'' then Inr ''html''
           else if contentType = Some ''text/css'' then Inr ''css''
           else if contentType = Some ''application/javascript'' then Inr ''javascript''
           else if contentType = Some ''application/json'' then Inr ''json''
           else Inl (UnsupportedContentTypeError contentType)))"

text \<open>
  The table as the specification words it, for comparison with the chain above:
  six pairs of content type and extension, looked up by exact match.
\<close>

definition extension_table :: "(string \<times> string) list" where
  "extension_table =
     [(''image/jpeg'', ''jpg''), (''image/png'', ''png''), (''text/html'', ''html''),
      (''text/css'', ''css''), (''application/javascript'', ''javascript''),
      (''application/json'', ''json'')]"

definition table_lookup :: "string option \<Rightarrow> error + string" where
  "table_lookup contentType =
     (case contentType of
        None \<Rightarrow> Inl (UnsupportedContentTypeError None)
      | Some ct \<Rightarrow>
          (case map_of extension_table ct of
             None \<Rightarrow> Inl (UnsupportedContentTypeError (Some ct))
           | Some ext \<Rightarrow> Inr ext))"

section \<open>parseMultipartFormData\<close>

text \<open>
  The promise of an asynchronous operation. \<^verbatim>\<open>resolve\<close> and \<^verbatim>\<open>reject\<close> act on a
  pending promise only; on a settled one they do nothing.
\<close>

datatype 'a promise = Pending | Fulfilled 'a | Rejected error

record parsed =
  fields' :: "string \<rightharpoonup> string"
  files :: "file_record list option"

text \<open>
  What the decoder emits: \<^verbatim>\<open>"finish"\<close> with its result object, or \<^verbatim>\<open>"error"\<close> with an
  error. The field \<open>fields'\<close> is the result's \<^verbatim>\<open>fields\<close> (primed, as the record
  package keeps the plain name for itself); \<open>files\<close> is \<open>None\<close> when \<^verbatim>\<open>result.files\<close> is \<^verbatim>\<open>null\<close> or \<^verbatim>\<open>undefined\<close>.
\<close>

datatype signal = Finish parsed | Failure error

record event =
  event_headers :: "string \<rightharpoonup> string"
  event_body :: string

record options =
  Bucket :: "string option"
  Key :: string
  Body :: file_record

text \<open>
  Requests to the storage client. The module calls \<^verbatim>\<open>s3.upload\<close> only;
  \<open>DeleteObject\<close> is there to say that it is never called.
\<close>

datatype s3_call = Upload options | DeleteObject "string option" string

datatype s3_answer = Stored | Failed error

datatype log_line = console_log string | console_error error

text \<open>
  Everything outside the module, as one record:
  \<^item> \<open>Multipart\<close>: the signals the decoder (\<^verbatim>\<open>lambda-multipart\<close>) emits for an event, in
    the order it emits them;
  \<^item> \<open>uuidv4\<close>: the identifier the \<open>n\<close>-th call of \<^verbatim>\<open>uuidv4()\<close> returns in this invocation;
  \<^item> \<open>file_s3_bucket_name\<close>: the environment variable, \<open>None\<close> when it is not set;
  \<^item> \<open>s3_upload\<close>: for the \<open>n\<close>-th call of \<^verbatim>\<open>s3.upload(options).promise()\<close>, how long the
    storage backend takes and what it answers.
\<close>

record world =
  Multipart :: "event \<Rightarrow> signal list"
  uuidv4 :: "nat \<Rightarrow> string"
  file_s3_bucket_name :: "string option"
  s3_upload :: "nat \<Rightarrow> options \<Rightarrow> nat \<times> s3_answer"

text \<open>
  The two handlers of the source: \<^verbatim>\<open>"finish"\<close> resolves with a new object of the
  result's \<^verbatim>\<open>fields\<close> and \<^verbatim>\<open>files\<close>, \<^verbatim>\<open>"error"\<close> rejects with the error.
\<close>

fun on_signal :: "parsed promise \<Rightarrow> signal \<Rightarrow> parsed promise" where
  "on_signal Pending (Finish result) = Fulfilled \<lparr>fields' = fields' result, files = files result\<rparr>"
| "on_signal Pending (Failure err) = Rejected err"
| "on_signal settled _ = settled"

definition parseMultipartFormData :: "world \<Rightarrow> event \<Rightarrow> parsed promise" where
  "parseMultipartFormData w ev = foldl on_signal Pending (Multipart w ev)"

section \<open>uploadFileIntoS3\<close>

text \<open>
  One call of \<^verbatim>\<open>uploadFileIntoS3\<close>: the requests it sends, the lines it writes to the
  console, the instant its promise settles and how. Instant \<open>0\<close> is the turn of the
  event loop in which \<^verbatim>\<open>files.map\<close> runs; a request answered after \<open>d\<close> further turns
  settles at \<open>Suc d\<close>.
\<close>

record task =
  issued :: "s3_call list"
  console :: "log_line list"
  settles_at :: nat
  outcome :: "unit promise"

text \<open>
  The success line interpolates the identifier \<^verbatim>\<open>fileName\<close>. The module declares
  \<^verbatim>\<open>Multipart\<close>, \<^verbatim>\<open>AWS\<close>, \<^verbatim>\<open>s3\<close>, \<^verbatim>\<open>uuidv4\<close> and its three functions, and
  \<^verbatim>\<open>uploadFileIntoS3\<close> binds \<^verbatim>\<open>file\<close>, \<^verbatim>\<open>ext\<close> and \<^verbatim>\<open>options\<close>; the key exists as
  \<^verbatim>\<open>options.Key\<close> only. Evaluating the template literal therefore throws before
  \<^verbatim>\<open>console.log\<close> is called, inside the \<^verbatim>\<open>try\<close> block.
\<close>

definition fileName_unbound :: error where
  "fileName_unbound = ReferenceError ''fileName is not defined''"

definition success_line :: "string option \<Rightarrow> error + string" where
  "success_line bucket = Inl fileName_unbound"

text \<open>
  \<open>n\<close> counts the identifiers generated so far; the result carries the new count.
  \<^verbatim>\<open>getFileExtension\<close> runs before the \<^verbatim>\<open>try\<close>: its error is thrown as it is, nothing
  is logged, no identifier is generated and no request is sent. The \<^verbatim>\<open>catch\<close> block
  logs and rethrows whatever the \<^verbatim>\<open>try\<close> block threw.
\<close>

definition uploadFileIntoS3 :: "world \<Rightarrow> nat \<Rightarrow> file_record \<Rightarrow> task \<times> nat" where
  "uploadFileIntoS3 w n f =
     (case getFileExtension f of
        Inl err \<Rightarrow> (\<lparr>issued = [], console = [], settles_at = 0, outcome = Rejected err\<rparr>, n)
      | Inr ext \<Rightarrow>
          (let opts = \<lparr>Bucket = file_s3_bucket_name w, Key = uuidv4 w n @ ''.'' @ ext, Body = f\<rparr>;
               answer = s3_upload w n opts;
               tried = (case snd answer of
                          Failed err \<Rightarrow> Inl err
                        | Stored \<Rightarrow>
                            (case success_line (file_s3_bucket_name w) of
                               Inl err \<Rightarrow> Inl err
                             | Inr line \<Rightarrow> Inr [console_log line]))
           in (case tried of
                 Inl err \<Rightarrow>
                   (\<lparr>issued = [Upload opts], console = [console_error err],
                     settles_at = Suc (fst answer), outcome = Rejected err\<rparr>, Suc n)
               | Inr lines \<Rightarrow>
                   (\<lparr>issued = [Upload opts], console = lines,
                     settles_at = Suc (fst answer), outcome = Fulfilled ()\<rparr>, Suc n))))"

section \<open>upload\<close>

text \<open>
  \<^verbatim>\<open>files.map(async (file) => { await uploadFileIntoS3(file); })\<close>: the calls are made
  one after the other in the order of the files, each up to its first \<^verbatim>\<open>await\<close>, so
  every request is sent before any promise settles.
\<close>

fun files_map :: "world \<Rightarrow> nat \<Rightarrow> file_record list \<Rightarrow> task list" where
  "files_map w n [] = []"
| "files_map w n (f # fs) =
     (case uploadFileIntoS3 w n f of (t, n') \<Rightarrow> t # files_map w n' fs)"

text \<open>
  \<^verbatim>\<open>Promise.all\<close> rejects with the reason of the promise that rejects first, and
  fulfils when all have fulfilled. Of two promises rejecting at the same instant the
  one earlier in the list is taken.
\<close>

fun first_rejection :: "task list \<Rightarrow> (nat \<times> error) option" where
  "first_rejection [] = None"
| "first_rejection (t # ts) =
     (case outcome t of
        Rejected err \<Rightarrow>
          (case first_rejection ts of
             None \<Rightarrow> Some (settles_at t, err)
           | Some (i, err') \<Rightarrow> if i < settles_at t then Some (i, err') else Some (settles_at t, err))
      | _ \<Rightarrow> first_rejection ts)"

definition Promise_all :: "task list \<Rightarrow> unit promise" where
  "Promise_all ts =
     (case first_rejection ts of
        Some (i, err) \<Rightarrow> Rejected err
      | None \<Rightarrow> if list_all (\<lambda>t. outcome t = Fulfilled ()) ts then Fulfilled () else Pending)"

record http_response =
  statusCode :: nat

text \<open>
  One invocation of the handler: what its promise settles to, the requests sent to
  the storage client in the order they were sent, and the per-file tasks.
\<close>

record invocation =
  returned :: "http_response promise"
  s3_calls :: "s3_call list"
  tasks :: "task list"

definition upload :: "world \<Rightarrow> event \<Rightarrow> invocation" where
  "upload w ev =
     (case parseMultipartFormData w ev of
        Pending \<Rightarrow> \<lparr>returned = Pending, s3_calls = [], tasks = []\<rparr>
      | Rejected err \<Rightarrow> \<lparr>returned = Rejected err, s3_calls = [], tasks = []\<rparr>
      | Fulfilled p \<Rightarrow>
          (case files p of
             None \<Rightarrow> \<lparr>returned = Fulfilled \<lparr>statusCode = 200\<rparr>, s3_calls = [], tasks = []\<rparr>
           | Some fs \<Rightarrow>
               if length fs = 0
               then \<lparr>returned = Fulfilled \<lparr>statusCode = 200\<rparr>, s3_calls = [], tasks = []\<rparr>
               else
                 (let ts = files_map w 0 fs in
                  \<lparr>returned =
                     (case Promise_all ts of
                        Pending \<Rightarrow> Pending
                      | Rejected err \<Rightarrow> Rejected err
                      | Fulfilled u \<Rightarrow> Fulfilled \<lparr>statusCode = 201\<rparr>),
                   s3_calls = concat (map issued ts),
                   tasks = ts\<rparr>)))"

section \<open>Sample inputs\<close>

definition jpeg_abc :: file_record where
  "jpeg_abc = \<lparr>headers = Some [''content-type'' \<mapsto> ''image/jpeg''], content = ''abc''\<rparr>"

definition png_xyz :: file_record where
  "png_xyz = \<lparr>headers = Some [''content-type'' \<mapsto> ''image/png''], content = ''xyz''\<rparr>"

definition pdf_doc :: file_record where
  "pdf_doc = \<lparr>headers = Some [''content-type'' \<mapsto> ''application/pdf''], content = ''%PDF''\<rparr>"

definition no_content_type :: file_record where
  "no_content_type = \<lparr>headers = Some [''content-disposition'' \<mapsto> ''form-data''], content = ''abc''\<rparr>"

definition no_headers :: file_record where
  "no_headers = \<lparr>headers = None, content = ''abc''\<rparr>"

definition sample_uuid :: "nat \<Rightarrow> string" where
  "sample_uuid n =
     (if n = 0 then ''110ec58a-a0f2-4ac4-8393-c866d813b8d1''
      else if n = 1 then ''7c9e6679-7425-40de-944b-e07fc1f90ae7''
      else ''e4eaaaf2-d142-11e1-b3e4-080027620cdd'')"

definition sample_event :: event where
  "sample_event =
     \<lparr>event_headers = [''content-type'' \<mapsto> ''multipart/form-data; boundary=x''],
      event_body = ''--x--''\<rparr>"

text \<open>
  A world whose decoder emits \<open>sigs\<close> and whose backend answers the \<open>n\<close>-th request
  with the \<open>n\<close>-th entry of \<open>answers\<close> (and stores at once beyond the list).
\<close>

definition sample_world :: "signal list \<Rightarrow> (nat \<times> s3_answer) list \<Rightarrow> world" where
  "sample_world sigs answers =
     \<lparr>Multipart = (\<lambda>ev. sigs),
      uuidv4 = sample_uuid,
      file_s3_bucket_name = Some ''uploads'',
      s3_upload = (\<lambda>n opts. if n < length answers then answers ! n else (0, Stored))\<rparr>"

definition finish_with :: "file_record list \<Rightarrow> signal" where
  "finish_with fs = Finish \<lparr>fields' = Map.empty, files = Some fs\<rparr>"

section \<open>Observations on the model\<close>

text \<open>A file for which \<^verbatim>\<open>getFileExtension\<close> returns an extension.\<close>

definition has_extension :: "file_record \<Rightarrow> bool" where
  "has_extension f = (case getFileExtension f of Inl err \<Rightarrow> False | Inr ext \<Rightarrow> True)"

text \<open>How many of the signals change the state of the promise, starting from \<open>p\<close>.\<close>

fun settlements :: "parsed promise \<Rightarrow> signal list \<Rightarrow> nat" where
  "settlements p [] = 0"
| "settlements p (s # ss) = (if on_signal p s = p then 0 else 1) + settlements (on_signal p s) ss"

text \<open>
  The pattern \<^verbatim>\<open>^[0-9a-f-]{36}\.EXT$\<close> of the specification's scenario, for the
  extension \<open>ext\<close>.
\<close>

definition uuid_char :: "char \<Rightarrow> bool" where
  "uuid_char c = (c \<in> set ''0123456789abcdef-'')"

definition key_matches :: "string \<Rightarrow> string \<Rightarrow> bool" where
  "key_matches ext key =
     (length (take 36 key) = 36 \<and> list_all uuid_char (take 36 key) \<and> drop 36 key = ''.'' @ ext)"

section \<open>Extension derivation\<close>

lemma getFileExtension_headers:
  "headers f = Some hs \<Longrightarrow> getFileExtension f = table_lookup (hs ''content-type'')"
  by (cases "hs ''content-type''")
     (simp_all add: getFileExtension_def table_lookup_def extension_table_def Let_def)

lemma unsupported_neq_missing: "UnsupportedContentTypeError v \<noteq> MissingHeadersError"
  by (simp add: UnsupportedContentTypeError_def MissingHeadersError_def)

lemma table_lookup_error:
  "table_lookup v = Inl err \<Longrightarrow> err = UnsupportedContentTypeError v"
  by (auto simp: table_lookup_def split: option.splits)

lemma map_of_extension_table:
  "(map_of extension_table ct = Some ext) = ((ct, ext) \<in> set extension_table)"
  by (rule map_of_eq_Some_iff) (simp add: extension_table_def)

lemma table_lookup_hit:
  "(table_lookup v = Inr ext) = (\<exists>ct. v = Some ct \<and> (ct, ext) \<in> set extension_table)"
proof (cases v)
  case None
  then show ?thesis by (simp add: table_lookup_def)
next
  case (Some ct)
  then show ?thesis
    by (cases "map_of extension_table ct")
       (simp_all add: table_lookup_def map_of_extension_table[symmetric])
qed

section \<open>Settling and dispatch\<close>

lemma on_signal_settled: "p \<noteq> Pending \<Longrightarrow> foldl on_signal p sigs = p"
  by (induction sigs) (cases p; simp)+

lemma parse_first:
  "Multipart w ev = s # rest \<Longrightarrow> parseMultipartFormData w ev = on_signal Pending s"
  unfolding parseMultipartFormData_def by (cases s) (simp_all add: on_signal_settled)

lemma settlements_settled: "p \<noteq> Pending \<Longrightarrow> settlements p sigs = 0"
  by (induction sigs) (cases p; simp)+

lemma uploadFileIntoS3_extension_error:
  "getFileExtension f = Inl err \<Longrightarrow>
   uploadFileIntoS3 w n f = (\<lparr>issued = [], console = [], settles_at = 0, outcome = Rejected err\<rparr>, n)"
  by (simp add: uploadFileIntoS3_def)

lemma uploadFileIntoS3_request:
  "getFileExtension f = Inr ext \<Longrightarrow>
   uploadFileIntoS3 w n f =
     (\<lparr>issued = [Upload \<lparr>Bucket = file_s3_bucket_name w, Key = uuidv4 w n @ ''.'' @ ext, Body = f\<rparr>],
       console = [console_error (case snd (s3_upload w n \<lparr>Bucket = file_s3_bucket_name w, Key = uuidv4 w n @ ''.'' @ ext, Body = f\<rparr>) of Stored \<Rightarrow> fileName_unbound | Failed err \<Rightarrow> err)],
       settles_at = Suc (fst (s3_upload w n \<lparr>Bucket = file_s3_bucket_name w, Key = uuidv4 w n @ ''.'' @ ext, Body = f\<rparr>)),
       outcome = Rejected (case snd (s3_upload w n \<lparr>Bucket = file_s3_bucket_name w, Key = uuidv4 w n @ ''.'' @ ext, Body = f\<rparr>) of Stored \<Rightarrow> fileName_unbound | Failed err \<Rightarrow> err)\<rparr>, Suc n)"
  by (simp add: uploadFileIntoS3_def success_line_def Let_def split: s3_answer.splits)

lemma uploadFileIntoS3_rejects:
  "\<exists>err. outcome (fst (uploadFileIntoS3 w n f)) = Rejected err"
  by (cases "getFileExtension f")
     (simp_all add: uploadFileIntoS3_extension_error uploadFileIntoS3_request)

lemma files_map_rejected:
  "t \<in> set (files_map w n fs) \<Longrightarrow> \<exists>err. outcome t = Rejected err"
proof (induction fs arbitrary: n)
  case Nil
  then show ?case by simp
next
  case (Cons f fs)
  obtain t' n' where u: "uploadFileIntoS3 w n f = (t', n')" by (cases "uploadFileIntoS3 w n f")
  with uploadFileIntoS3_rejects[of w n f] have "\<exists>err. outcome t' = Rejected err" by simp
  with Cons u show ?case by auto
qed

lemma first_rejection_None:
  "first_rejection ts = None \<Longrightarrow> t \<in> set ts \<Longrightarrow> outcome t \<noteq> Rejected err"
  by (induction ts) (auto split: promise.splits option.splits if_splits)

lemma first_rejection_member:
  "first_rejection ts = Some (i, err) \<Longrightarrow> \<exists>t \<in> set ts. settles_at t = i \<and> outcome t = Rejected err"
  by (induction ts arbitrary: i err) (auto split: promise.splits option.splits if_splits)

lemma first_rejection_least:
  "first_rejection ts = Some (i, err) \<Longrightarrow> t \<in> set ts \<Longrightarrow> outcome t = Rejected err' \<Longrightarrow> i \<le> settles_at t"
  by (induction ts arbitrary: i err)
     (auto split: promise.splits option.splits if_splits dest: first_rejection_None)

lemma files_map_nonempty: "fs \<noteq> [] \<Longrightarrow> files_map w n fs \<noteq> []"
  by (cases fs) (auto split: prod.splits)

lemma Promise_all_files_map:
  assumes "fs \<noteq> []"
  shows "\<exists>err. Promise_all (files_map w n fs) = Rejected err"
proof -
  from assms obtain t where t: "t \<in> set (files_map w n fs)"
    using files_map_nonempty[of fs w n] by (cases "files_map w n fs") auto
  then obtain err where "outcome t = Rejected err" using files_map_rejected by blast
  with t have "first_rejection (files_map w n fs) \<noteq> None"
    using first_rejection_None by blast
  then show ?thesis by (auto simp: Promise_all_def)
qed

lemma upload_never_created: "returned (upload w ev) \<noteq> Fulfilled \<lparr>statusCode = 201\<rparr>"
proof (cases "parseMultipartFormData w ev")
  case (Fulfilled p)
  show ?thesis
  proof (cases "files p")
    case None
    with Fulfilled show ?thesis by (simp add: upload_def)
  next
    case (Some fs)
    show ?thesis
    proof (cases "fs = []")
      case True
      with Fulfilled Some show ?thesis by (simp add: upload_def)
    next
      case False
      then obtain err where "Promise_all (files_map w 0 fs) = Rejected err"
        using Promise_all_files_map by blast
      with Fulfilled Some False show ?thesis by (simp add: upload_def Let_def)
    qed
  qed
qed (simp_all add: upload_def)


lemma has_extension_task:
  "has_extension f \<Longrightarrow> 0 < settles_at (fst (uploadFileIntoS3 w n f))"
  by (cases "getFileExtension f") (simp_all add: has_extension_def uploadFileIntoS3_request)

lemma first_extension_error_wins:
  "list_all has_extension pre \<Longrightarrow> getFileExtension f = Inl err \<Longrightarrow>
   first_rejection (files_map w n (pre @ f # post)) = Some (0, err)"
proof (induction pre arbitrary: n)
  case Nil
  then show ?case
    by (simp add: uploadFileIntoS3_extension_error split: option.splits)
next
  case (Cons g pre)
  obtain t n' where u: "uploadFileIntoS3 w n g = (t, n')" by (cases "uploadFileIntoS3 w n g")
  from Cons.prems have "has_extension g" by simp
  with has_extension_task[of g w n] u have "0 < settles_at t" by simp
  moreover from Cons have "first_rejection (files_map w n' (pre @ f # post)) = Some (0, err)" by simp
  ultimately show ?case using u by (simp split: promise.splits)
qed

lemma some_extension_error_wins:
  assumes "\<not> list_all has_extension fs"
  shows "\<exists>g err. g \<in> set fs \<and> getFileExtension g = Inl err \<and>
           first_rejection (files_map w n fs) = Some (0, err)"
proof -
  from assms have "\<exists>g \<in> set fs. \<not> has_extension g" by (simp add: list_all_iff)
  then obtain pre g post where s: "fs = pre @ g # post" "\<not> has_extension g" "\<forall>h \<in> set pre. has_extension h"
    by (auto dest!: split_list_first_prop)
  from s(2) obtain err where e: "getFileExtension g = Inl err"
    by (cases "getFileExtension g") (simp_all add: has_extension_def)
  from s(3) have "list_all has_extension pre" by (simp add: list_all_iff)
  from first_extension_error_wins[OF this e, of w n post] s(1) e show ?thesis by auto
qed

lemma upload_files:
  "Multipart w ev = Finish p # rest \<Longrightarrow> files p = Some fs \<Longrightarrow> fs \<noteq> [] \<Longrightarrow>
   upload w ev =
     \<lparr>returned = (case Promise_all (files_map w 0 fs) of
                    Pending \<Rightarrow> Pending
                  | Rejected err \<Rightarrow> Rejected err
                  | Fulfilled u \<Rightarrow> Fulfilled \<lparr>statusCode = 201\<rparr>),
      s3_calls = concat (map issued (files_map w 0 fs)),
      tasks = files_map w 0 fs\<rparr>"
  by (simp add: upload_def parse_first[of w ev "Finish p" rest] Let_def)

lemma take_positive_Cons: "0 < k \<Longrightarrow> take k (s # rest) = s # take (k - 1) rest"
  by (cases k) simp_all

lemma supported_files_calls:
  "list_all has_extension fs \<Longrightarrow>
     length (concat (map issued (files_map w n fs))) = length fs \<and>
     (\<forall>i ext. i < length fs \<longrightarrow> getFileExtension (fs ! i) = Inr ext \<longrightarrow>
        concat (map issued (files_map w n fs)) ! i =
          Upload \<lparr>Bucket = file_s3_bucket_name w, Key = uuidv4 w (n + i) @ ''.'' @ ext,
                  Body = fs ! i\<rparr>)"
proof (induction fs arbitrary: n)
  case Nil
  then show ?case by simp
next
  case (Cons f fs)
  from Cons.prems obtain ext where e: "getFileExtension f = Inr ext"
    by (cases "getFileExtension f") (simp_all add: has_extension_def)
  from Cons.prems have "list_all has_extension fs" by simp
  from Cons.IH[OF this, of "Suc n"] e show ?case
    by (auto simp: uploadFileIntoS3_request nth_Cons split: nat.splits)
qed

lemma keys_differ:
  "length u = length v \<Longrightarrow> u \<noteq> v \<Longrightarrow> u @ ''.'' @ ext \<noteq> v @ ''.'' @ ext'"
  by simp

lemma backend_failure_logged_and_rethrown:
  "getFileExtension f = Inr ext \<Longrightarrow>
   s3_upload w n \<lparr>Bucket = file_s3_bucket_name w, Key = uuidv4 w n @ ''.'' @ ext, Body = f\<rparr> = (d, Failed err) \<Longrightarrow>
     uploadFileIntoS3 w n f =
       (\<lparr>issued = [Upload \<lparr>Bucket = file_s3_bucket_name w, Key = uuidv4 w n @ ''.'' @ ext, Body = f\<rparr>],
         console = [console_error err], settles_at = Suc d, outcome = Rejected err\<rparr>, Suc n)"
  by (simp add: uploadFileIntoS3_request)

lemma files_map_uploads_only:
  "c \<in> set (concat (map issued (files_map w n fs))) \<Longrightarrow> \<exists>opts. c = Upload opts"
proof (induction fs arbitrary: n)
  case Nil
  then show ?case by simp
next
  case (Cons f fs)
  then show ?case
    by (cases "getFileExtension f")
       (auto simp: uploadFileIntoS3_extension_error uploadFileIntoS3_request)
qed

lemma upload_sends_uploads_only:
  "c \<in> set (s3_calls (upload w ev)) \<Longrightarrow> \<exists>opts. c = Upload opts"
  by (auto simp: upload_def Let_def simp del: set_concat
           split: promise.splits option.splits if_splits dest: files_map_uploads_only)

lemma earliest_rejection_propagates:
  "outcome t = Rejected err \<Longrightarrow>
   \<forall>u \<in> set pre. \<forall>e. outcome u = Rejected e \<longrightarrow> settles_at t < settles_at u \<Longrightarrow>
   \<forall>u \<in> set post. \<forall>e. outcome u = Rejected e \<longrightarrow> settles_at t \<le> settles_at u \<Longrightarrow>
   Promise_all (pre @ t # post) = Rejected err"
proof -
  assume t: "outcome t = Rejected err"
    and pre: "\<forall>u \<in> set pre. \<forall>e. outcome u = Rejected e \<longrightarrow> settles_at t < settles_at u"
    and post: "\<forall>u \<in> set post. \<forall>e. outcome u = Rejected e \<longrightarrow> settles_at t \<le> settles_at u"
  have p: "first_rejection (t # post) = Some (settles_at t, err)"
  proof (cases "first_rejection post")
    case None
    with t show ?thesis by simp
  next
    case (Some a)
    obtain i e where a: "a = (i, e)" by (cases a)
    with Some first_rejection_member[of post i e] post have "settles_at t \<le> i" by auto
    with Some a t show ?thesis by simp
  qed
  from pre have "first_rejection (pre @ t # post) = Some (settles_at t, err)"
  proof (induction pre)
    case Nil
    with p show ?case by simp
  next
    case (Cons u pre)
    then show ?case by (cases "outcome u") auto
  qed
  then show ?thesis by (simp add: Promise_all_def)
qed

text \<open>The definitions a concrete run unfolds.\<close>

lemmas eval_defs = upload_def parseMultipartFormData_def uploadFileIntoS3_def getFileExtension_def
  Promise_all_def success_line_def sample_world_def finish_with_def sample_uuid_def
  jpeg_abc_def png_xyz_def pdf_doc_def no_headers_def no_content_type_def Let_def

section \<open>Files with supported content types\<close>

text \<open>
  C1. Two files with supported content types, a backend that stores both: the handler
  sends one request per file, in the order of the files, with the keys
  \<^verbatim>\<open><uuid>.jpg\<close> and \<^verbatim>\<open><uuid>.png\<close>. Its promise then rejects with the
  \<^verbatim>\<open>ReferenceError\<close> of the success line of \<^verbatim>\<open>uploadFileIntoS3\<close>; it does not
  resolve with status code 201 (by \<open>upload_never_created\<close> it never does).
\<close>

theorem supported_files_not_created:
  "s3_calls (upload (sample_world [finish_with [jpeg_abc, png_xyz]] [(0, Stored), (0, Stored)])
              sample_event) =
     [Upload \<lparr>Bucket = Some ''uploads'', Key = ''110ec58a-a0f2-4ac4-8393-c866d813b8d1.jpg'',
              Body = jpeg_abc\<rparr>,
      Upload \<lparr>Bucket = Some ''uploads'', Key = ''7c9e6679-7425-40de-944b-e07fc1f90ae7.png'',
              Body = png_xyz\<rparr>] \<and>
   returned (upload (sample_world [finish_with [jpeg_abc, png_xyz]] [(0, Stored), (0, Stored)])
              sample_event) =
     Rejected (ReferenceError ''fileName is not defined'') \<and>
   returned (upload (sample_world [finish_with [jpeg_abc, png_xyz]] [(0, Stored), (0, Stored)])
              sample_event) \<noteq>
     Fulfilled \<lparr>statusCode = 201\<rparr>"
  by (simp add: eval_defs fileName_unbound_def)

text \<open>
  C2. The scenario of one \<^verbatim>\<open>image/jpeg\<close> part with the content \<^verbatim>\<open>abc\<close>, stored by the
  backend: exactly one request is sent, to the configured bucket, its key matches
  \<^verbatim>\<open>^[0-9a-f-]{36}\.jpg$\<close>, its body is the file, whose content is \<^verbatim>\<open>abc\<close>. The
  handler's promise rejects with the \<^verbatim>\<open>ReferenceError\<close> of the success line instead
  of resolving with status code 201.
\<close>

theorem jpeg_abc_scenario_not_created:
  "s3_calls (upload (sample_world [finish_with [jpeg_abc]] [(0, Stored)]) sample_event) =
     [Upload \<lparr>Bucket = Some ''uploads'', Key = ''110ec58a-a0f2-4ac4-8393-c866d813b8d1.jpg'',
              Body = jpeg_abc\<rparr>] \<and>
   key_matches ''jpg'' ''110ec58a-a0f2-4ac4-8393-c866d813b8d1.jpg'' \<and>
   content jpeg_abc = ''abc'' \<and>
   returned (upload (sample_world [finish_with [jpeg_abc]] [(0, Stored)]) sample_event) =
     Rejected (ReferenceError ''fileName is not defined'')"
  by (simp add: eval_defs fileName_unbound_def key_matches_def uuid_char_def)

section \<open>The extension table\<close>

text \<open>
  C3. With a headers mapping present, \<^verbatim>\<open>getFileExtension\<close> is the exact-match lookup
  of the content type in the six-entry table: a content type of the table gives its
  extension and an extension is returned for the pairs of the table only, every other
  value (an absent one as well) gives the unsupported-content-type error. \<^verbatim>\<open>uploadFileIntoS3\<close> then rejects with that error, having
  generated no key, sent no request and logged nothing.
\<close>

theorem getFileExtension_exact_table_lookup:
  "headers f = Some hs \<Longrightarrow>
     getFileExtension f = table_lookup (hs ''content-type'') \<and>
     (getFileExtension f = Inr ext) =
       (\<exists>ct. hs ''content-type'' = Some ct \<and> (ct, ext) \<in> set extension_table) \<and>
     (table_lookup (hs ''content-type'') = Inl err \<longrightarrow>
        err = UnsupportedContentTypeError (hs ''content-type'') \<and>
        uploadFileIntoS3 w n f =
          (\<lparr>issued = [], console = [], settles_at = 0, outcome = Rejected err\<rparr>, n))"
proof -
  assume h: "headers f = Some hs"
  then have a: "getFileExtension f = table_lookup (hs ''content-type'')"
    by (rule getFileExtension_headers)
  have b: "(getFileExtension f = Inr ext) =
       (\<exists>ct. hs ''content-type'' = Some ct \<and> (ct, ext) \<in> set extension_table)"
    unfolding a by (rule table_lookup_hit)
  have c: "err = UnsupportedContentTypeError (hs ''content-type'') \<and>
        uploadFileIntoS3 w n f =
          (\<lparr>issued = [], console = [], settles_at = 0, outcome = Rejected err\<rparr>, n)"
    if t: "table_lookup (hs ''content-type'') = Inl err"
  proof
    show "err = UnsupportedContentTypeError (hs ''content-type'')"
      using t by (rule table_lookup_error)
    from a t have "getFileExtension f = Inl err" by simp
    then show "uploadFileIntoS3 w n f =
          (\<lparr>issued = [], console = [], settles_at = 0, outcome = Rejected err\<rparr>, n)"
      by (rule uploadFileIntoS3_extension_error)
  qed
  show ?thesis
  proof (intro conjI impI)
    show "getFileExtension f = table_lookup (hs ''content-type'')" by (rule a)
    show "(getFileExtension f = Inr ext) =
       (\<exists>ct. hs ''content-type'' = Some ct \<and> (ct, ext) \<in> set extension_table)" by (rule b)
    assume t: "table_lookup (hs ''content-type'') = Inl err"
    from c[OF t] show "err = UnsupportedContentTypeError (hs ''content-type'')" by (rule conjunct1)
    from c[OF t] show "uploadFileIntoS3 w n f =
          (\<lparr>issued = [], console = [], settles_at = 0, outcome = Rejected err\<rparr>, n)"
      by (rule conjunct2)
  qed
qed

theorem getFileExtension_exact_table_lookup_witness:
  "getFileExtension pdf_doc = Inl (Error ''Unsupported content type \"application/pdf\".'') \<and>
   uploadFileIntoS3 (sample_world [] []) 0 pdf_doc =
     (\<lparr>issued = [], console = [], settles_at = 0,
       outcome = Rejected (Error ''Unsupported content type \"application/pdf\".'')\<rparr>, 0) \<and>
   getFileExtension jpeg_abc = Inr ''jpg''"
proof -
  let ?pdf = "[''content-type'' \<mapsto> ''application/pdf'']"
  let ?jpg = "[''content-type'' \<mapsto> ''image/jpeg'']"
  let ?err = "Error ''Unsupported content type \"application/pdf\".''"
  have h: "headers pdf_doc = Some ?pdf" by (simp add: pdf_doc_def)
  have t: "table_lookup (?pdf ''content-type'') = Inl ?err"
    by (simp add: table_lookup_def extension_table_def UnsupportedContentTypeError_def
          interpolate_def)
  have j: "headers jpeg_abc = Some ?jpg" by (simp add: jpeg_abc_def)
  have k: "table_lookup (?jpg ''content-type'') = Inr ''jpg''"
    by (simp add: table_lookup_def extension_table_def)
  note tp = getFileExtension_exact_table_lookup[OF h, of "''jpg''" "?err" "sample_world [] []" 0]
  note tj = getFileExtension_exact_table_lookup[OF j, of "''jpg''" "?err" "sample_world [] []" 0]
  from tp t have a: "getFileExtension pdf_doc = Inl ?err" by simp
  from tp t have b: "uploadFileIntoS3 (sample_world [] []) 0 pdf_doc =
     (\<lparr>issued = [], console = [], settles_at = 0, outcome = Rejected ?err\<rparr>, 0)"
    by blast
  from tj k have c: "getFileExtension jpeg_abc = Inr ''jpg''" by simp
  from a b c show ?thesis by (simp only: simp_thms)
qed

section \<open>Decoder errors and empty batches\<close>

text \<open>
  C4. When the decoder's first notification is an error, \<^verbatim>\<open>parseMultipartFormData\<close>
  rejects with that error, the handler's promise rejects with the same error, and no
  request is sent to the storage client, whatever the decoder emits afterwards.
\<close>

theorem decoder_error_aborts_invocation:
  "Multipart w ev = Failure err # rest \<Longrightarrow>
     parseMultipartFormData w ev = Rejected err \<and>
     upload w ev = \<lparr>returned = Rejected err, s3_calls = [], tasks = []\<rparr>"
proof -
  assume m: "Multipart w ev = Failure err # rest"
  then have "parseMultipartFormData w ev = Rejected err"
    by (simp add: parse_first[of w ev "Failure err" rest])
  then show ?thesis by (simp add: upload_def)
qed

theorem decoder_error_aborts_invocation_witness:
  "upload (sample_world [Failure (DecoderError ''Unexpected end of multipart data''),
                         finish_with [jpeg_abc]] []) sample_event =
     \<lparr>returned = Rejected (DecoderError ''Unexpected end of multipart data''),
      s3_calls = [], tasks = []\<rparr>"
proof -
  let ?w = "sample_world [Failure (DecoderError ''Unexpected end of multipart data''),
                          finish_with [jpeg_abc]] []"
  have "Multipart ?w sample_event =
          Failure (DecoderError ''Unexpected end of multipart data'') # [finish_with [jpeg_abc]]"
    by (simp add: sample_world_def)
  from decoder_error_aborts_invocation[OF this] show ?thesis by simp
qed

text \<open>
  C5. When the decoder finishes with an empty sequence of files, whatever the form
  fields are, the handler resolves with status code 200 and sends no request to the
  storage client.
\<close>

theorem zero_files_no_op:
  "Multipart w ev = Finish p # rest \<Longrightarrow> files p = Some [] \<Longrightarrow>
     upload w ev = \<lparr>returned = Fulfilled \<lparr>statusCode = 200\<rparr>, s3_calls = [], tasks = []\<rparr>"
  by (simp add: upload_def parse_first[of w ev "Finish p" rest])

theorem zero_files_no_op_witness:
  "upload (sample_world [Finish \<lparr>fields' = [''name'' \<mapsto> ''foo''], files = Some []\<rparr>] []) sample_event =
     \<lparr>returned = Fulfilled \<lparr>statusCode = 200\<rparr>, s3_calls = [], tasks = []\<rparr>"
proof -
  let ?p = "\<lparr>fields' = [''name'' \<mapsto> ''foo''], files = Some []\<rparr>"
  have m: "Multipart (sample_world [Finish ?p] []) sample_event = Finish ?p # []"
    by (simp add: sample_world_def)
  have f: "files ?p = Some []" by simp
  from zero_files_no_op[OF m f] show ?thesis .
qed

section \<open>Failures of a batch\<close>

text \<open>
  C6. Two files; the backend stores the first and, one turn later, refuses the second
  with an error. The second task logs and rethrows the backend's error, and nothing
  but the two uploads is sent. The first task has already rejected with the
  \<^verbatim>\<open>ReferenceError\<close> of its success line, so the handler's promise rejects with
  that error and not with the backend's.
\<close>

theorem stored_sibling_masks_backend_error:
  "tasks (upload (sample_world [finish_with [jpeg_abc, png_xyz]]
                    [(0, Stored), (1, Failed (S3Error ''AccessDenied''))]) sample_event) =
     [\<lparr>issued = [Upload \<lparr>Bucket = Some ''uploads'',
                          Key = ''110ec58a-a0f2-4ac4-8393-c866d813b8d1.jpg'', Body = jpeg_abc\<rparr>],
       console = [console_error (ReferenceError ''fileName is not defined'')],
       settles_at = 1, outcome = Rejected (ReferenceError ''fileName is not defined'')\<rparr>,
      \<lparr>issued = [Upload \<lparr>Bucket = Some ''uploads'',
                          Key = ''7c9e6679-7425-40de-944b-e07fc1f90ae7.png'', Body = png_xyz\<rparr>],
       console = [console_error (S3Error ''AccessDenied'')],
       settles_at = 2, outcome = Rejected (S3Error ''AccessDenied'')\<rparr>] \<and>
   returned (upload (sample_world [finish_with [jpeg_abc, png_xyz]]
                       [(0, Stored), (1, Failed (S3Error ''AccessDenied''))]) sample_event) =
     Rejected (ReferenceError ''fileName is not defined'') \<and>
   returned (upload (sample_world [finish_with [jpeg_abc, png_xyz]]
                       [(0, Stored), (1, Failed (S3Error ''AccessDenied''))]) sample_event) \<noteq>
     Rejected (S3Error ''AccessDenied'')"
  by (simp add: eval_defs fileName_unbound_def)

text \<open>
  C7. A file without a headers mapping makes \<^verbatim>\<open>getFileExtension\<close> throw the
  missing-headers error; \<^verbatim>\<open>uploadFileIntoS3\<close> rejects with it, having sent and logged
  nothing; a batch holding such a file rejects with the error of extension derivation
  of one of its files, and with the missing-headers error when every file before this
  one has an extension.
\<close>

theorem missing_headers_fails_batch:
  "headers f = None \<Longrightarrow> Multipart w ev = Finish p # rest \<Longrightarrow> files p = Some fs \<Longrightarrow>
   f \<in> set fs \<Longrightarrow>
     getFileExtension f = Inl MissingHeadersError \<and>
     uploadFileIntoS3 w n f =
       (\<lparr>issued = [], console = [], settles_at = 0, outcome = Rejected MissingHeadersError\<rparr>, n) \<and>
     (\<exists>g err. g \<in> set fs \<and> getFileExtension g = Inl err \<and>
        returned (upload w ev) = Rejected err) \<and>
     (\<forall>pre post. fs = pre @ f # post \<longrightarrow> list_all has_extension pre \<longrightarrow>
        returned (upload w ev) = Rejected MissingHeadersError)"
proof -
  assume h: "headers f = None" and m: "Multipart w ev = Finish p # rest"
    and fs: "files p = Some fs" and mem: "f \<in> set fs"
  have e: "getFileExtension f = Inl MissingHeadersError"
    using h by (simp add: getFileExtension_def)
  have u: "uploadFileIntoS3 w n f =
       (\<lparr>issued = [], console = [], settles_at = 0, outcome = Rejected MissingHeadersError\<rparr>, n)"
    using e by (rule uploadFileIntoS3_extension_error)
  from mem have ne: "fs \<noteq> []" by auto
  have r: "returned (upload w ev) =
       (case Promise_all (files_map w 0 fs) of
          Pending \<Rightarrow> Pending
        | Rejected err \<Rightarrow> Rejected err
        | Fulfilled u \<Rightarrow> Fulfilled \<lparr>statusCode = 201\<rparr>)"
    by (simp add: upload_files[OF m fs ne])
  have "\<not> has_extension f" using e by (simp add: has_extension_def)
  with mem have "\<not> list_all has_extension fs" by (auto simp: list_all_iff)
  from some_extension_error_wins[OF this, of w 0]
  have a: "\<exists>g err. g \<in> set fs \<and> getFileExtension g = Inl err \<and>
        returned (upload w ev) = Rejected err"
    by (auto simp: r Promise_all_def)
  have b: "returned (upload w ev) = Rejected MissingHeadersError"
    if "fs = pre @ f # post" "list_all has_extension pre" for pre post
    using first_extension_error_wins[OF that(2) e, of w 0 post] that(1)
    by (simp add: r Promise_all_def)
  from e u a b show ?thesis by blast
qed

theorem missing_headers_fails_batch_witness:
  "getFileExtension no_headers = Inl (Error ''Missing \"headers\" from request'') \<and>
   returned (upload (sample_world [finish_with [jpeg_abc, no_headers, pdf_doc]] []) sample_event) =
     Rejected (Error ''Missing \"headers\" from request'') \<and>
   s3_calls (upload (sample_world [finish_with [jpeg_abc, no_headers, pdf_doc]] []) sample_event) =
     [Upload \<lparr>Bucket = Some ''uploads'', Key = ''110ec58a-a0f2-4ac4-8393-c866d813b8d1.jpg'',
              Body = jpeg_abc\<rparr>]"
proof -
  let ?fs = "[jpeg_abc, no_headers, pdf_doc]"
  let ?p = "\<lparr>fields' = Map.empty, files = Some ?fs\<rparr>"
  let ?w = "sample_world [finish_with ?fs] []"
  have h: "headers no_headers = None" by (simp add: no_headers_def)
  have m: "Multipart ?w sample_event = Finish ?p # []"
    by (simp add: sample_world_def finish_with_def)
  have f: "files ?p = Some ?fs" by simp
  have i: "no_headers \<in> set ?fs" by simp
  have s: "?fs = [jpeg_abc] @ no_headers # [pdf_doc]" by simp
  have x: "list_all has_extension [jpeg_abc]"
    by (simp add: has_extension_def getFileExtension_def jpeg_abc_def)
  have c: "s3_calls (upload ?w sample_event) =
     [Upload \<lparr>Bucket = Some ''uploads'', Key = ''110ec58a-a0f2-4ac4-8393-c866d813b8d1.jpg'',
              Body = jpeg_abc\<rparr>]"
    by (simp add: eval_defs)
  note t = missing_headers_fails_batch[OF h m f i, of 0]
  from t have a: "getFileExtension no_headers = Inl MissingHeadersError"
    by (rule conjunct1)
  from t have "\<forall>pre post. ?fs = pre @ no_headers # post \<longrightarrow> list_all has_extension pre \<longrightarrow>
        returned (upload ?w sample_event) = Rejected MissingHeadersError"
    by (elim conjE)
  with s x have b: "returned (upload ?w sample_event) = Rejected MissingHeadersError"
    by blast
  from a b c show ?thesis
    by (simp only: MissingHeadersError_def simp_thms)
qed

section \<open>Settling of the parse\<close>

text \<open>
  C8. When the decoder emits at least one notification, the promise of
  \<^verbatim>\<open>parseMultipartFormData\<close> is settled by the first one (a completion resolves it
  with the fields and files, an error rejects it with that error), it changes state
  exactly once, and after any further notifications its state is still the same.
\<close>

theorem parse_settles_once:
  "Multipart w ev = s # rest \<Longrightarrow>
     parseMultipartFormData w ev =
       (case s of
          Finish result \<Rightarrow> Fulfilled \<lparr>fields' = fields' result, files = files result\<rparr>
        | Failure err \<Rightarrow> Rejected err) \<and>
     settlements Pending (Multipart w ev) = 1 \<and>
     (\<forall>k. 0 < k \<longrightarrow>
        foldl on_signal Pending (take k (Multipart w ev)) = parseMultipartFormData w ev)"
proof -
  assume m: "Multipart w ev = s # rest"
  have p: "parseMultipartFormData w ev = on_signal Pending s" using m by (rule parse_first)
  have a: "on_signal Pending s =
       (case s of
          Finish result \<Rightarrow> Fulfilled \<lparr>fields' = fields' result, files = files result\<rparr>
        | Failure err \<Rightarrow> Rejected err)"
    by (cases s) simp_all
  have n: "on_signal Pending s \<noteq> Pending" by (cases s) simp_all
  have b: "settlements Pending (s # rest) = 1"
    using n by (simp add: settlements_settled)
  have c: "foldl on_signal Pending (take k (s # rest)) = on_signal Pending s" if "0 < k" for k
    using that n by (simp add: take_positive_Cons on_signal_settled)
  from p a b c m show ?thesis by simp
qed

theorem parse_settles_once_witness:
  "parseMultipartFormData
     (sample_world [finish_with [jpeg_abc], Failure (DecoderError ''late'')] []) sample_event =
     Fulfilled \<lparr>fields' = Map.empty, files = Some [jpeg_abc]\<rparr> \<and>
   parseMultipartFormData
     (sample_world [Failure (DecoderError ''early''), finish_with [jpeg_abc]] []) sample_event =
     Rejected (DecoderError ''early'') \<and>
   settlements Pending [finish_with [jpeg_abc], Failure (DecoderError ''late'')] = 1 \<and>
   foldl on_signal Pending (take 2 [finish_with [jpeg_abc], Failure (DecoderError ''late'')]) =
     Fulfilled \<lparr>fields' = Map.empty, files = Some [jpeg_abc]\<rparr>"
proof -
  let ?a = "sample_world [finish_with [jpeg_abc], Failure (DecoderError ''late'')] []"
  let ?b = "sample_world [Failure (DecoderError ''early''), finish_with [jpeg_abc]] []"
  have ma: "Multipart ?a sample_event = finish_with [jpeg_abc] # [Failure (DecoderError ''late'')]"
    by (simp add: sample_world_def)
  have mb: "Multipart ?b sample_event = Failure (DecoderError ''early'') # [finish_with [jpeg_abc]]"
    by (simp add: sample_world_def)
  note ta = parse_settles_once[OF ma]
  note tb = parse_settles_once[OF mb]
  from ta have a: "parseMultipartFormData ?a sample_event =
      Fulfilled \<lparr>fields' = Map.empty, files = Some [jpeg_abc]\<rparr>"
    by (simp add: finish_with_def)
  from tb have b: "parseMultipartFormData ?b sample_event = Rejected (DecoderError ''early'')"
    by simp
  from ta ma have c: "settlements Pending [finish_with [jpeg_abc], Failure (DecoderError ''late'')] = 1"
    by simp
  from ta have "\<forall>k. 0 < k \<longrightarrow>
      foldl on_signal Pending (take k (Multipart ?a sample_event)) =
        parseMultipartFormData ?a sample_event"
    by (elim conjE)
  then have "foldl on_signal Pending (take 2 (Multipart ?a sample_event)) =
      parseMultipartFormData ?a sample_event"
    by simp
  with a ma have d: "foldl on_signal Pending
      (take 2 [finish_with [jpeg_abc], Failure (DecoderError ''late'')]) =
      Fulfilled \<lparr>fields' = Map.empty, files = Some [jpeg_abc]\<rparr>"
    by simp
  from a b c d show ?thesis by (simp only: simp_thms)
qed

text \<open>
  C9. When the decoder finishes with \<^verbatim>\<open>files\<close> being \<^verbatim>\<open>null\<close> or \<^verbatim>\<open>undefined\<close>,
  the handler resolves with status code 200 and sends no request to the storage
  client, as for an empty sequence.
\<close>

theorem null_files_no_op:
  "Multipart w ev = Finish p # rest \<Longrightarrow> files p = None \<Longrightarrow>
     upload w ev = \<lparr>returned = Fulfilled \<lparr>statusCode = 200\<rparr>, s3_calls = [], tasks = []\<rparr>"
  by (simp add: upload_def parse_first[of w ev "Finish p" rest])

theorem null_files_no_op_witness:
  "upload (sample_world [Finish \<lparr>fields' = [''name'' \<mapsto> ''foo''], files = None\<rparr>] []) sample_event =
     \<lparr>returned = Fulfilled \<lparr>statusCode = 200\<rparr>, s3_calls = [], tasks = []\<rparr>"
proof -
  let ?p = "\<lparr>fields' = [''name'' \<mapsto> ''foo''], files = None\<rparr>"
  have m: "Multipart (sample_world [Finish ?p] []) sample_event = Finish ?p # []"
    by (simp add: sample_world_def)
  have f: "files ?p = None" by simp
  from null_files_no_op[OF m f] show ?thesis .
qed

text \<open>
  C10. With a headers mapping that has no \<^verbatim>\<open>content-type\<close> entry, \<^verbatim>\<open>getFileExtension\<close>
  throws the unsupported-content-type error whose message interpolates \<^verbatim>\<open>undefined\<close>,
  not the missing-headers error; the missing-headers error is thrown exactly when the
  headers mapping itself is \<^verbatim>\<open>null\<close> or \<^verbatim>\<open>undefined\<close>.
\<close>

theorem absent_content_type_is_unsupported:
  "headers f = Some hs \<Longrightarrow> hs ''content-type'' = None \<Longrightarrow>
     getFileExtension f = Inl (Error ''Unsupported content type \"undefined\".'') \<and>
     getFileExtension f \<noteq> Inl MissingHeadersError \<and>
     (getFileExtension g = Inl MissingHeadersError) = (headers g = None)"
proof -
  assume h: "headers f = Some hs" "hs ''content-type'' = None"
  have a: "getFileExtension f = Inl (Error ''Unsupported content type \"undefined\".'')"
    using h by (simp add: getFileExtension_def UnsupportedContentTypeError_def interpolate_def)
  have b: "getFileExtension f \<noteq> Inl MissingHeadersError"
    using a by (simp add: MissingHeadersError_def)
  have c: "(getFileExtension g = Inl MissingHeadersError) = (headers g = None)"
  proof (cases "headers g")
    case None
    then show ?thesis by (simp add: getFileExtension_def)
  next
    case (Some gs)
    then show ?thesis
      by (auto simp: getFileExtension_headers unsupported_neq_missing[symmetric]
            dest!: table_lookup_error)
  qed
  from a b c show ?thesis by simp
qed

theorem absent_content_type_is_unsupported_witness:
  "getFileExtension no_content_type = Inl (Error ''Unsupported content type \"undefined\".'') \<and>
   getFileExtension no_content_type \<noteq> Inl MissingHeadersError \<and>
   getFileExtension no_headers = Inl MissingHeadersError"
proof -
  have h: "headers no_content_type = Some [''content-disposition'' \<mapsto> ''form-data'']"
    by (simp add: no_content_type_def)
  have n: "[''content-disposition'' \<mapsto> ''form-data''] ''content-type'' = None" by simp
  show ?thesis
    using absent_content_type_is_unsupported[OF h n, of no_headers]
    by (simp add: no_headers_def MissingHeadersError_def)
qed

end
